theory Spec2Isabelle
  imports Complex_Main "HOL-Library.Word" "HOL-Library.Sublist"
begin

section \<open>Data model\<close>

text \<open>
  The program (\<^verbatim>\<open>preprocessing.py\<close>) works on pandas data frames of one-minute
  candlesticks. A frame is modelled as the list of its rows, in frame order; a row is a
  record with one field per column.

  \<^item> The nine price and volume columns are shared by every stage (\<open>candle\<close>).
  \<^item> A raw frame, as \<^verbatim>\<open>pd.read_csv\<close> returns it, adds \<^verbatim>\<open>open_time\<close>,
    \<^verbatim>\<open>close_time\<close> and \<^verbatim>\<open>ignore\<close> (\<open>raw_row\<close>); a cell of a raw frame is an
    \<open>option\<close>, \<open>None\<close> being the empty cell (NaN). The integrity check and the
    cleaning only compare cells and test them for emptiness.
  \<^item> The conversion pipeline computes with the cells, and what pandas computes depends
    on the type it gave the column (its dtype). Its frames have cells of a type per
    kind of column (\<open>csv_row\<close>, and \<open>typed_row\<close> once \<^verbatim>\<open>close_time\<close> and
    \<^verbatim>\<open>ignore\<close> are dropped), and pandas' operations on these cells are parameters
    of the model, given in full for the columns of 64-bit integers.
  \<^item> After the casts a row is a \<open>frame_row\<close>: the candle and its \<^verbatim>\<open>open_time\<close>, a
    timestamp and the index of the frame.
  \<^item> The dictionaries \<^verbatim>\<open>addMissingMinutes\<close> works on (\<^verbatim>\<open>df.to_dict('records')\<close>)
    hold the candle and \<^verbatim>\<open>datetime\<close> (\<open>row\<close>).

  Timestamps are integers, milliseconds since the epoch, as \<^verbatim>\<open>open_time\<close> is in the
  raw files; \<open>None\<close> is pandas' NaT. \<^verbatim>\<open>addMissingMinutes\<close> is modelled on
  unbounded timestamps; the bounds of pandas' timestamp type (years 1677 to 2262) are
  modelled where the pipeline meets them. The type \<open>'f\<close> stands for the floating-point
  values of the price and volume cells, which the program only copies, casts and
  overwrites with zero; \<open>'n\<close> stands for the type of the trade count.
\<close>

record ('f, 'n) candle =
  "open" :: 'f
  high :: 'f
  low :: 'f
  close :: 'f
  volume :: 'f
  quote_asset_volume :: 'f
  number_of_trades :: 'n
  taker_buy_base_asset_volume :: 'f
  taker_buy_quote_asset_volume :: 'f

record ('f, 'n) row = "('f, 'n) candle" +
  datetime :: "int option"

record ('f, 'n) frame_row = "('f, 'n) candle" +
  open_time :: "int option"

record ('f, 'n) raw_row = "('f, 'n) frame_row" +
  close_time :: "int option"
  ignore :: 'f

datatype error = AssertionError | ValueError

record ('f, 'n, 't) typed_row = "('f, 'n) candle" +
  open_time_cell :: 't

record ('f, 'n, 't) csv_row = "('f, 'n, 't) typed_row" +
  close_time_cell :: 't
  ignore_cell :: 'f

section \<open>Timestamps\<close>

text \<open>\<^verbatim>\<open>timedelta(minutes=1)\<close>, in milliseconds.\<close>

definition minute :: int where
  "minute = 60000"

text \<open>
  Timestamp arithmetic as the gap filler uses it. NaT absorbs addition and
  subtraction, and every comparison with NaT is false.
\<close>

definition ts_plus :: "int option \<Rightarrow> int \<Rightarrow> int option" where
  "ts_plus t d = (case t of None \<Rightarrow> None | Some a \<Rightarrow> Some (a + d))"


definition ts_less :: "int option \<Rightarrow> int option \<Rightarrow> bool" where
  "ts_less t u = (case (t, u) of (Some a, Some b) \<Rightarrow> a < b | _ \<Rightarrow> False)"

section \<open>The gap filler: \<^verbatim>\<open>addMissingMinutes\<close>\<close>

text \<open>
  One pass of the body of the \<^verbatim>\<open>while\<close> loop over \<^verbatim>\<open>current\<close>: the timestamp
  advances by a minute, the five volume and count fields become 0, and low, high and
  open take the value of close, in the order of the source's assignments.
\<close>

definition missingRow :: "('f::zero, 'n::zero) row \<Rightarrow> ('f, 'n) row" where
  "missingRow current =
     current\<lparr>datetime := ts_plus (datetime current) minute\<rparr>
            \<lparr>volume := 0\<rparr>
            \<lparr>quote_asset_volume := 0\<rparr>
            \<lparr>number_of_trades := 0\<rparr>
            \<lparr>taker_buy_base_asset_volume := 0\<rparr>
            \<lparr>taker_buy_quote_asset_volume := 0\<rparr>
            \<lparr>low := close current\<rparr>
            \<lparr>high := close current\<rparr>
            \<lparr>open := close current\<rparr>"




section \<open>The integrity check: \<^verbatim>\<open>assert_integrity\<close>\<close>

text \<open>
  \<^verbatim>\<open>df.isna().all(axis=1)\<close> at one row of a raw frame: every one of its twelve cells is
  empty.
\<close>

definition isna_all :: "('f option, 'n option) raw_row \<Rightarrow> bool" where
  "isna_all r \<longleftrightarrow>
     open_time r = None \<and> open r = None \<and> high r = None \<and> low r = None \<and>
     close r = None \<and> volume r = None \<and> close_time r = None \<and>
     quote_asset_volume r = None \<and> number_of_trades r = None \<and>
     taker_buy_base_asset_volume r = None \<and> taker_buy_quote_asset_volume r = None \<and>
     ignore r = None"

text \<open>
  \<^verbatim>\<open>Series.duplicated()\<close> with its default \<^verbatim>\<open>keep='first'\<close>: the mark of a value
  is true when the value occurred earlier in the column. pandas counts two empty cells
  as the same value, as equality on \<open>option\<close> does. \<open>seen\<close> holds the values met so far.
\<close>

fun duplicated_from :: "'a list \<Rightarrow> 'a list \<Rightarrow> bool list" where
  "duplicated_from seen [] = []"
| "duplicated_from seen (x # xs) = (x \<in> set seen) # duplicated_from (x # seen) xs"

definition duplicated :: "'a list \<Rightarrow> bool list" where
  "duplicated xs = duplicated_from [] xs"

text \<open>
  The two assertions, in the source's order. A failed \<^verbatim>\<open>assert\<close> raises
  \<^verbatim>\<open>AssertionError\<close>; the function returns nothing and assigns nothing.
\<close>

definition assert_integrity :: "('f option, 'n option) raw_row list \<Rightarrow> error + unit" where
  "assert_integrity df =
     (if \<not> (list_ex isna_all df = False) then Inl AssertionError
      else if \<not> (list_ex id (duplicated (map open_time df)) = False) then Inl AssertionError
      else Inr ())"

section \<open>Cleaning: \<^verbatim>\<open>quick_clean\<close>\<close>

text \<open>\<^verbatim>\<open>df[df['open_time'].duplicated() == False]\<close>: the rows whose mark is false.\<close>

definition not_duplicated :: "('f option, 'n option) raw_row list
    \<Rightarrow> ('f option, 'n option) raw_row list" where
  "not_duplicated df =
     map fst (filter (\<lambda>(r, d). d = False) (zip df (duplicated (map open_time df))))"

text \<open>
  The frame \<^verbatim>\<open>df\<close> after the first step of \<^verbatim>\<open>quick_clean\<close>. The statement that
  follows it in the source, \<^verbatim>\<open>df.sort_values(by=['open_time'], ascending=False)\<close>,
  builds a sorted copy and leaves \<^verbatim>\<open>df\<close> as it is (no \<^verbatim>\<open>inplace=True\<close>, no
  assignment); the copy is dropped, so the statement has no counterpart here.
\<close>

definition drop_dupes :: "('f option, 'n option) raw_row list
    \<Rightarrow> ('f option, 'n option) raw_row list" where
  "drop_dupes df =
     (let dupes = length (filter id (duplicated (map open_time df)))
      in if dupes > 0 then not_duplicated df else df)"

definition quick_clean :: "('f option, 'n option) raw_row list
    \<Rightarrow> error + ('f option, 'n option) raw_row list" where
  "quick_clean df =
     (let df' = drop_dupes df
      in case assert_integrity df' of
           Inl e \<Rightarrow> Inl e
         | Inr _ \<Rightarrow> Inr df')"

section \<open>pandas' operations on typed columns\<close>

text \<open>
  A pandas operation of the pipeline either returns or raises. Which exception it
  raises (\<^verbatim>\<open>ValueError\<close>, \<^verbatim>\<open>OutOfBoundsDatetime\<close>, \<^verbatim>\<open>OverflowError\<close>, by dtype and by
  version of pandas) is not modelled: \<open>Raised\<close> stands for any of them.
\<close>

datatype failure = Raised

text \<open>
  The operations whose result depends on the dtype of the column, at one cell:
  \<^item> \<open>duration_differs a b\<close>: the value of \<^verbatim>\<open>df['open_time'] - df['close_time'] != -59999\<close>
    at a row with the cells \<open>a\<close> and \<open>b\<close>;
  \<^item> \<open>to_datetime a\<close>: \<^verbatim>\<open>pd.to_datetime(..., unit='ms')\<close> at the cell \<open>a\<close>, a timestamp or
    NaT when it returns;
  \<^item> \<open>float32 x\<close>: \<^verbatim>\<open>astype('float32')\<close> at a price or volume cell; it always returns
    (NaN stays NaN, a value too large becomes infinite);
  \<^item> \<open>astype_uint16 n\<close>: \<^verbatim>\<open>astype('uint16')\<close> at a cell of the trade-count column.
  A frame comes with the operations of its dtypes; they are the same at every row.
\<close>

record ('t, 'f, 'n, 'g) pandas =
  duration_differs :: "'t \<Rightarrow> 't \<Rightarrow> bool"
  to_datetime :: "'t \<Rightarrow> failure + int option"
  float32 :: "'f \<Rightarrow> 'g"
  astype_uint16 :: "'n \<Rightarrow> failure + 16 word"

text \<open>
  An operation over a column: cell by cell, and it raises when it raises at a cell.
\<close>

fun column :: "('a \<Rightarrow> failure + 'b) \<Rightarrow> 'a list \<Rightarrow> failure + 'b list" where
  "column f [] = Inr []"
| "column f (x # xs) =
     (case f x of
        Inl e \<Rightarrow> Inl e
      | Inr y \<Rightarrow> (case column f xs of Inl e \<Rightarrow> Inl e | Inr ys \<Rightarrow> Inr (y # ys)))"

subsection \<open>Columns of 64-bit integers\<close>

text \<open>
  \<^verbatim>\<open>pd.read_csv\<close> gives the dtype \<^verbatim>\<open>int64\<close> to a column whose cells are all present
  and are integers of 64 bits. On such columns:
  \<^item> the subtraction wraps around, as numpy's does, and the comparison is exact;
  \<^item> \<^verbatim>\<open>pd.to_datetime\<close> reads the smallest integer as NaT, returns the timestamp when
    its nanoseconds fit 64 bits, and raises otherwise;
  \<^item> \<^verbatim>\<open>astype('uint16')\<close> keeps the low 16 bits, as numpy's conversion between
    integer types does, and never raises.
\<close>

definition int64_duration_differs :: "64 word \<Rightarrow> 64 word \<Rightarrow> bool" where
  "int64_duration_differs a b \<longleftrightarrow> a - b \<noteq> - 59999"

text \<open>
  A number of milliseconds whose nanoseconds fit 64 bits: a timestamp, or a difference
  of timestamps, that pandas represents.
\<close>

definition representable :: "int \<Rightarrow> bool" where
  "representable ms \<longleftrightarrow> - 9223372036854 \<le> ms \<and> ms \<le> 9223372036854"

definition int64_to_datetime :: "64 word \<Rightarrow> failure + int option" where
  "int64_to_datetime a =
     (if sint a = - 9223372036854775808 then Inr None
      else if representable (sint a) then Inr (Some (sint a))
      else Inl Raised)"

definition int64_astype_uint16 :: "64 word \<Rightarrow> failure + 16 word" where
  "int64_astype_uint16 n = Inr (ucast n)"

definition int64_frame :: "('f \<Rightarrow> 'g) \<Rightarrow> (64 word, 'f, 64 word, 'g) pandas" where
  "int64_frame f =
     \<lparr>duration_differs = int64_duration_differs, to_datetime = int64_to_datetime,
      float32 = f, astype_uint16 = int64_astype_uint16\<rparr>"

section \<open>The compact profile: \<^verbatim>\<open>set_dtypes_compressed\<close>\<close>

text \<open>
  The row of the frame \<^verbatim>\<open>astype\<close> returns, from the row \<open>r\<close> of the frame, its timestamp
  \<open>t\<close> (the index, after \<^verbatim>\<open>set_index\<close>) and its trade count \<open>n\<close> of 16 bits.
\<close>

definition compact_row :: "('t, 'f, 'n, 'g) pandas \<Rightarrow> ('f, 'n, 't) typed_row \<Rightarrow> int option
    \<Rightarrow> 16 word \<Rightarrow> ('g, 16 word) frame_row" where
  "compact_row pd r t n =
     \<lparr>open = float32 pd (open r), high = float32 pd (high r), low = float32 pd (low r),
      close = float32 pd (close r), volume = float32 pd (volume r),
      quote_asset_volume = float32 pd (quote_asset_volume r),
      number_of_trades = n,
      taker_buy_base_asset_volume = float32 pd (taker_buy_base_asset_volume r),
      taker_buy_quote_asset_volume = float32 pd (taker_buy_quote_asset_volume r),
      open_time = t\<rparr>"

text \<open>
  \<^verbatim>\<open>pd.to_datetime\<close> over the column \<^verbatim>\<open>open_time\<close> first, then \<^verbatim>\<open>astype\<close>, in which
  only the cast of the trade counts can raise.
\<close>

definition set_dtypes_compressed :: "('t, 'f, 'n, 'g) pandas \<Rightarrow> ('f, 'n, 't) typed_row list
    \<Rightarrow> failure + ('g, 16 word) frame_row list" where
  "set_dtypes_compressed pd df =
     (case column (to_datetime pd) (map open_time_cell df) of
        Inl e \<Rightarrow> Inl e
      | Inr index \<Rightarrow>
          (case column (astype_uint16 pd) (map number_of_trades df) of
             Inl e \<Rightarrow> Inl e
           | Inr trades \<Rightarrow>
               Inr (map (\<lambda>(r, t, n). compact_row pd r t n) (zip df (zip index trades)))))"

section \<open>The gap filler on a frame: \<^verbatim>\<open>addMissingMinutesDf\<close>\<close>

text \<open>
  The timestamps of a frame are pandas timestamps. Their difference and the sum of one
  of them and a minute are computed by pandas, which raises when the result is not
  representable; NaT absorbs both and nothing is raised.
\<close>

definition checked_minus :: "int option \<Rightarrow> int option \<Rightarrow> failure + int option" where
  "checked_minus t u =
     (case (t, u) of
        (Some a, Some b) \<Rightarrow> if representable (a - b) then Inr (Some (a - b)) else Inl Raised
      | _ \<Rightarrow> Inr None)"

definition checked_plus :: "int option \<Rightarrow> int \<Rightarrow> failure + int option" where
  "checked_plus t d =
     (case t of
        None \<Rightarrow> Inr None
      | Some a \<Rightarrow> if representable (a + d) then Inr (Some (a + d)) else Inl Raised)"

text \<open>
  The two loops of \<^verbatim>\<open>addMissingMinutes\<close> again, with these failures: the sum is
  computed for each test of the \<^verbatim>\<open>while\<close> loop, the difference for each row that has
  a previous row.
\<close>

function fill_gap_checked :: "('f::zero, 'n::zero) row \<Rightarrow> ('f, 'n) row \<Rightarrow> ('f, 'n) row list
    \<Rightarrow> failure + ('f, 'n) row list" where
  "fill_gap_checked current row cleanData =
     (case checked_plus (datetime current) minute of
        Inl e \<Rightarrow> Inl e
      | Inr next_minute \<Rightarrow>
          if ts_less next_minute (datetime row)
          then fill_gap_checked (missingRow current) row (cleanData @ [missingRow current])
          else Inr cleanData)"
  by pat_completeness auto
termination
  by (relation "measure (\<lambda>(current, row, cleanData).
      case (datetime current, datetime row) of
        (Some c, Some r) \<Rightarrow> nat (r - c) | _ \<Rightarrow> 0)")
    (auto simp: ts_less_def ts_plus_def checked_plus_def missingRow_def minute_def
      split: option.splits if_splits)

fun rows_loop_checked :: "('f::zero, 'n::zero) row option \<Rightarrow> ('f, 'n) row list
    \<Rightarrow> ('f, 'n) row list \<Rightarrow> failure + ('f, 'n) row list" where
  "rows_loop_checked previousRow cleanData [] = Inr cleanData"
| "rows_loop_checked previousRow cleanData (row # rest) =
     (case previousRow of
        None \<Rightarrow> rows_loop_checked (Some row) (cleanData @ [row]) rest
      | Some p \<Rightarrow>
          (case checked_minus (datetime row) (datetime p) of
             Inl e \<Rightarrow> Inl e
           | Inr gap \<Rightarrow>
               if ts_less (Some minute) gap
               then (case fill_gap_checked p row cleanData of
                       Inl e \<Rightarrow> Inl e
                     | Inr cleanData' \<Rightarrow>
                         rows_loop_checked (Some row) (cleanData' @ [row]) rest)
               else rows_loop_checked (Some row) (cleanData @ [row]) rest))"

definition addMissingMinutesDf :: "('f::zero, 'n::zero) row list
    \<Rightarrow> failure + ('f, 'n) row list" where
  "addMissingMinutesDf df = rows_loop_checked None [] df"

section \<open>The conversion pipeline: \<^verbatim>\<open>write_raw_to_parquet\<close>\<close>

text \<open>\<^verbatim>\<open>df.drop(['close_time', 'ignore'], axis=1)\<close> at one row.\<close>

definition drop_close_time_ignore :: "('f, 'n, 't) csv_row \<Rightarrow> ('f, 'n, 't) typed_row" where
  "drop_close_time_ignore r =
     \<lparr>open = open r, high = high r, low = low r, close = close r, volume = volume r,
      quote_asset_volume = quote_asset_volume r, number_of_trades = number_of_trades r,
      taker_buy_base_asset_volume = taker_buy_base_asset_volume r,
      taker_buy_quote_asset_volume = taker_buy_quote_asset_volume r,
      open_time_cell = open_time_cell r\<rparr>"

text \<open>
  \<^verbatim>\<open>df['datetime'] = df.index\<close>, \<^verbatim>\<open>df.reset_index(drop=True)\<close> and
  \<^verbatim>\<open>df.to_dict('records')\<close> at one row: the index becomes the field \<^verbatim>\<open>datetime\<close>.
\<close>

definition to_record :: "('g, 'n) frame_row \<Rightarrow> ('g, 'n) row" where
  "to_record r =
     \<lparr>open = open r, high = high r, low = low r, close = close r, volume = volume r,
      quote_asset_volume = quote_asset_volume r, number_of_trades = number_of_trades r,
      taker_buy_base_asset_volume = taker_buy_base_asset_volume r,
      taker_buy_quote_asset_volume = taker_buy_quote_asset_volume r,
      datetime = open_time r\<rparr>"

text \<open>
  The pipeline up to the frame it hands to \<^verbatim>\<open>to_parquet\<close>; writing the file is not
  modelled. The mask \<^verbatim>\<open>~(df['open_time'] - df['close_time'] != -59999)\<close> keeps the rows
  at which the comparison is false.
\<close>

definition write_raw_to_parquet :: "('t, 'f, 'n, 'g::zero) pandas \<Rightarrow> ('f, 'n, 't) csv_row list
    \<Rightarrow> failure + ('g, 16 word) row list" where
  "write_raw_to_parquet pd df =
     (let df1 = filter (\<lambda>r. \<not> duration_differs pd (open_time_cell r) (close_time_cell r)) df;
          df2 = map drop_close_time_ignore df1
      in case set_dtypes_compressed pd df2 of
           Inl e \<Rightarrow> Inl e
         | Inr df3 \<Rightarrow> addMissingMinutesDf (map to_record df3))"

section \<open>Auxiliary definitions\<close>



declare fill_gap_checked.simps [simp del]





text \<open>The rows whose \<open>open_time\<close> is neither in \<open>seen\<close> nor in an earlier row.\<close>

fun first_occurrences :: "int option list \<Rightarrow> ('f, 'n) raw_row list \<Rightarrow> ('f, 'n) raw_row list" where
  "first_occurrences seen [] = []"
| "first_occurrences seen (r # rs) =
     (if open_time r \<in> set seen then first_occurrences (open_time r # seen) rs
      else r # first_occurrences (open_time r # seen) rs)"

section \<open>Sample data\<close>


definition raw_candle :: "int option \<Rightarrow> int option \<Rightarrow> int option
    \<Rightarrow> (real option, int option) raw_row" where
  "raw_candle t u n =
     \<lparr>open = Some 10, high = Some 12, low = Some 9, close = Some 11, volume = Some 3,
      quote_asset_volume = Some 30, number_of_trades = n,
      taker_buy_base_asset_volume = Some 1, taker_buy_quote_asset_volume = Some 10,
      open_time = t, close_time = u, ignore = Some 0\<rparr>"

definition empty_row :: "(real option, int option) raw_row" where
  "empty_row =
     \<lparr>open = None, high = None, low = None, close = None, volume = None,
      quote_asset_volume = None, number_of_trades = None,
      taker_buy_base_asset_volume = None, taker_buy_quote_asset_volume = None,
      open_time = None, close_time = None, ignore = None\<rparr>"

definition csv_candle :: "64 word \<Rightarrow> 64 word \<Rightarrow> 64 word \<Rightarrow> (real, 64 word, 64 word) csv_row" where
  "csv_candle t u n =
     \<lparr>open = 10, high = 12, low = 9, close = 11, volume = 3, quote_asset_volume = 30,
      number_of_trades = n, taker_buy_base_asset_volume = 1,
      taker_buy_quote_asset_volume = 10, open_time_cell = t, close_time_cell = u,
      ignore_cell = 0\<rparr>"

section \<open>The gap filler and its loops\<close>







lemma missingRow_fields [simp]:
  "datetime (missingRow c) = ts_plus (datetime c) minute"
  "volume (missingRow c) = 0"
  "quote_asset_volume (missingRow c) = 0"
  "number_of_trades (missingRow c) = 0"
  "taker_buy_base_asset_volume (missingRow c) = 0"
  "taker_buy_quote_asset_volume (missingRow c) = 0"
  "open (missingRow c) = close c"
  "high (missingRow c) = close c"
  "low (missingRow c) = close c"
  "close (missingRow c) = close c"
  by (simp_all add: missingRow_def)











section \<open>Properties of the gap filler\<close>









section \<open>Duplicates\<close>

lemma list_ex_duplicated_from:
  "list_ex id (duplicated_from seen xs) \<longleftrightarrow> \<not> (distinct xs \<and> set xs \<inter> set seen = {})"
  by (induction xs arbitrary: seen) auto

lemma list_ex_duplicated: "list_ex id (duplicated xs) \<longleftrightarrow> \<not> distinct xs"
  by (simp add: duplicated_def list_ex_duplicated_from)

lemma not_distinct_nth:
  "\<not> distinct xs \<longleftrightarrow> (\<exists>i j. i < j \<and> j < length xs \<and> xs ! i = xs ! j)"
proof
  assume "\<not> distinct xs"
  then obtain i j where ij: "i < length xs" "j < length xs" "i \<noteq> j" "xs ! i = xs ! j"
    by (auto simp: distinct_conv_nth)
  show "\<exists>i j. i < j \<and> j < length xs \<and> xs ! i = xs ! j"
  proof (cases "i < j")
    case True
    then show ?thesis using ij by blast
  next
    case False
    then have "j < i" using ij(3) by simp
    then show ?thesis using ij(1,4) by metis
  qed
next
  assume "\<exists>i j. i < j \<and> j < length xs \<and> xs ! i = xs ! j"
  then obtain i j where "i < j" "j < length xs" "xs ! i = xs ! j" by blast
  then show "\<not> distinct xs"
    using nth_eq_iff_index_eq [of xs i j] by auto
qed

lemma mask_first_occurrences:
  "map fst (filter (\<lambda>(r, d). \<not> d) (zip df (duplicated_from seen (map open_time df)))) =
   first_occurrences seen df"
  by (induction df arbitrary: seen) auto

lemma not_duplicated_first_occurrences: "not_duplicated df = first_occurrences [] df"
  by (simp add: not_duplicated_def duplicated_def mask_first_occurrences)

lemma first_occurrences_times:
  "set (map open_time (first_occurrences seen df)) = set (map open_time df) - set seen"
  by (induction df arbitrary: seen) auto

lemma first_occurrences_unseen:
  "x \<in> set (first_occurrences seen df) \<Longrightarrow> open_time x \<notin> set seen"
  using first_occurrences_times [of seen df] by auto

lemma first_occurrences_distinct:
  "distinct (map open_time (first_occurrences seen df))"
proof (induction df arbitrary: seen)
  case Nil
  show ?case by simp
next
  case (Cons r rs)
  have "open_time r \<notin> open_time ` set (first_occurrences (open_time r # seen) rs)"
  proof
    assume "open_time r \<in> open_time ` set (first_occurrences (open_time r # seen) rs)"
    then obtain x where x: "x \<in> set (first_occurrences (open_time r # seen) rs)"
        and eq: "open_time r = open_time x"
      by blast
    have "open_time x \<notin> set (open_time r # seen)"
      using x by (rule first_occurrences_unseen)
    then show False using eq by simp
  qed
  then show ?case using Cons.IH by simp
qed

lemma first_occurrences_id:
  "distinct (map open_time df) \<Longrightarrow> set (map open_time df) \<inter> set seen = {} \<Longrightarrow>
   first_occurrences seen df = df"
  by (induction df arbitrary: seen) auto

lemma filter_id_empty: "length (filter id ds) > 0 \<longleftrightarrow> list_ex id ds"
  by (induction ds) auto

lemma drop_dupes_first_occurrences: "drop_dupes df = first_occurrences [] df"
proof (cases "distinct (map open_time df)")
  case True
  then have "\<not> list_ex id (duplicated (map open_time df))"
    by (simp add: list_ex_duplicated)
  then have "drop_dupes df = df"
    by (simp add: drop_dupes_def filter_id_empty [symmetric])
  then show ?thesis using True by (simp add: first_occurrences_id)
next
  case False
  then have "list_ex id (duplicated (map open_time df))"
    by (simp add: list_ex_duplicated)
  then have "drop_dupes df = not_duplicated df"
    by (simp add: drop_dupes_def filter_id_empty [symmetric])
  then show ?thesis by (simp add: not_duplicated_first_occurrences)
qed

lemma drop_dupes_distinct: "distinct (map open_time (drop_dupes df))"
  by (simp only: drop_dupes_first_occurrences first_occurrences_distinct)

lemma drop_dupes_idem: "distinct (map open_time df) \<Longrightarrow> drop_dupes df = df"
  by (simp add: drop_dupes_first_occurrences first_occurrences_id)

section \<open>Properties of the integrity check and of cleaning\<close>

text \<open>
  Claim C4. The integrity check fails (with the error of a failed assertion) exactly
  when two rows of the frame have the same \<open>open_time\<close> or some row has all of its
  twelve cells empty; on every other frame it succeeds. Its result is the error or
  nothing: the check returns no frame and has no state to change.
\<close>

theorem assert_integrity_fails_iff:
  "assert_integrity D =
     (if (\<exists>i j. i < j \<and> j < length D \<and> open_time (D ! i) = open_time (D ! j)) \<or>
         (\<exists>r \<in> set D. open_time r = None \<and> open r = None \<and> high r = None \<and>
            low r = None \<and> close r = None \<and> volume r = None \<and> close_time r = None \<and>
            quote_asset_volume r = None \<and> number_of_trades r = None \<and>
            taker_buy_base_asset_volume r = None \<and>
            taker_buy_quote_asset_volume r = None \<and> ignore r = None)
      then Inl AssertionError else Inr ())"
proof -
  have dup: "list_ex id (duplicated (map open_time D)) \<longleftrightarrow>
      (\<exists>i j. i < j \<and> j < length D \<and> open_time (D ! i) = open_time (D ! j))"
  proof -
    have "(\<exists>i j. i < j \<and> j < length (map open_time D) \<and>
        map open_time D ! i = map open_time D ! j) \<longleftrightarrow>
      (\<exists>i j. i < j \<and> j < length D \<and> open_time (D ! i) = open_time (D ! j))"
      by (metis (no_types, lifting) length_map nth_map order_less_trans)
    then show ?thesis
      by (simp only: list_ex_duplicated not_distinct_nth)
  qed
  have emp: "list_ex isna_all D \<longleftrightarrow>
      (\<exists>r \<in> set D. open_time r = None \<and> open r = None \<and> high r = None \<and>
            low r = None \<and> close r = None \<and> volume r = None \<and> close_time r = None \<and>
            quote_asset_volume r = None \<and> number_of_trades r = None \<and>
            taker_buy_base_asset_volume r = None \<and>
            taker_buy_quote_asset_volume r = None \<and> ignore r = None)"
    by (simp add: list_ex_iff isna_all_def)
  show ?thesis
    unfolding assert_integrity_def dup emp by auto
qed

theorem assert_integrity_fails_iff_witness:
  "assert_integrity [raw_candle (Some 0) (Some 59999) (Some 7),
      raw_candle (Some 0) (Some 59999) (Some 8)] = Inl AssertionError \<and>
   assert_integrity [empty_row] = Inl AssertionError \<and>
   assert_integrity [raw_candle (Some 0) (Some 59999) (Some 7),
      raw_candle (Some 60000) (Some 119999) (Some 8)] = Inr ()"
proof (intro conjI)
  have "(0::nat) < 1 \<and> 1 < length [raw_candle (Some 0) (Some 59999) (Some 7),
      raw_candle (Some 0) (Some 59999) (Some 8)] \<and>
    open_time ([raw_candle (Some 0) (Some 59999) (Some 7),
      raw_candle (Some 0) (Some 59999) (Some 8)] ! 0) =
    open_time ([raw_candle (Some 0) (Some 59999) (Some 7),
      raw_candle (Some 0) (Some 59999) (Some 8)] ! 1)"
    by (simp add: raw_candle_def)
  then have "\<exists>i j. i < j \<and> j < length [raw_candle (Some 0) (Some 59999) (Some 7),
      raw_candle (Some 0) (Some 59999) (Some 8)] \<and>
    open_time ([raw_candle (Some 0) (Some 59999) (Some 7),
      raw_candle (Some 0) (Some 59999) (Some 8)] ! i) =
    open_time ([raw_candle (Some 0) (Some 59999) (Some 7),
      raw_candle (Some 0) (Some 59999) (Some 8)] ! j)"
    by blast
  then show "assert_integrity [raw_candle (Some 0) (Some 59999) (Some 7),
      raw_candle (Some 0) (Some 59999) (Some 8)] = Inl AssertionError"
    unfolding assert_integrity_fails_iff by (intro if_P disjI1)
next
  show "assert_integrity [empty_row] = Inl AssertionError"
    by (simp add: assert_integrity_fails_iff empty_row_def)
next
  have "\<not> (\<exists>i j. i < j \<and> j < length [raw_candle (Some 0) (Some 59999) (Some 7),
      raw_candle (Some 60000) (Some 119999) (Some 8)] \<and>
    open_time ([raw_candle (Some 0) (Some 59999) (Some 7),
      raw_candle (Some 60000) (Some 119999) (Some 8)] ! i) =
    open_time ([raw_candle (Some 0) (Some 59999) (Some 7),
      raw_candle (Some 60000) (Some 119999) (Some 8)] ! j))"
    by (auto simp: raw_candle_def less_Suc_eq nth_Cons')
  then show "assert_integrity [raw_candle (Some 0) (Some 59999) (Some 7),
      raw_candle (Some 60000) (Some 119999) (Some 8)] = Inr ()"
    by (simp add: assert_integrity_fails_iff raw_candle_def)
qed

lemma quick_clean_example:
  "quick_clean [raw_candle (Some 0) (Some 59999) (Some 7),
      raw_candle (Some 0) (Some 59999) (Some 8)] =
   Inr [raw_candle (Some 0) (Some 59999) (Some 7)]"
  by (simp add: quick_clean_def drop_dupes_def not_duplicated_def duplicated_def
      assert_integrity_def isna_all_def raw_candle_def)

text \<open>
  Claim C5. Cleaning is idempotent: when \<open>quick_clean\<close> succeeds on a frame, cleaning
  its result succeeds too and returns the same frame.
\<close>

theorem quick_clean_idempotent:
  "quick_clean D = Inr D' \<Longrightarrow> quick_clean D' = Inr D'"
proof -
  assume h: "quick_clean D = Inr D'"
  then have D': "D' = drop_dupes D" and ok: "assert_integrity D' = Inr ()"
    by (auto simp: quick_clean_def Let_def split: sum.splits)
  have "drop_dupes D' = D'"
    unfolding D' by (rule drop_dupes_idem) (rule drop_dupes_distinct)
  then show ?thesis
    using ok by (simp add: quick_clean_def)
qed

theorem quick_clean_idempotent_witness:
  "quick_clean [raw_candle (Some 0) (Some 59999) (Some 7),
      raw_candle (Some 0) (Some 59999) (Some 8)] =
     Inr [raw_candle (Some 0) (Some 59999) (Some 7)] \<and>
   quick_clean [raw_candle (Some 0) (Some 59999) (Some 7)] =
     Inr [raw_candle (Some 0) (Some 59999) (Some 7)]"
  using quick_clean_example quick_clean_idempotent [OF quick_clean_example] by blast

text \<open>
  The re-check of \<open>quick_clean\<close> fails on a frame of one row whose cells are all empty:
  no step of the cleaning removes such a row.
\<close>

theorem quick_clean_recheck_fails:
  "quick_clean [empty_row] = Inl AssertionError"
  by (simp add: quick_clean_def drop_dupes_def not_duplicated_def duplicated_def
      assert_integrity_def isna_all_def empty_row_def)

text \<open>
  Claim C6, as amended. After the duplicates are dropped no two rows share an
  \<open>open_time\<close>, so the second assertion of the re-check holds on every input. The
  first one does not: \<open>quick_clean\<close> fails exactly when a row with all of its cells
  empty is left after the duplicates are dropped, and returns the frame without
  duplicates otherwise.
\<close>

theorem quick_clean_fails_on_empty_rows_only:
  "\<not> list_ex id (duplicated (map open_time (drop_dupes D))) \<and>
   quick_clean D =
     (if list_ex isna_all (drop_dupes D) then Inl AssertionError else Inr (drop_dupes D))"
  by (simp add: quick_clean_def assert_integrity_def list_ex_duplicated drop_dupes_distinct)

theorem quick_clean_fails_on_empty_rows_only_witness:
  "quick_clean [raw_candle None (Some 59999) (Some 7), empty_row] =
     Inr [raw_candle None (Some 59999) (Some 7)]"
proof -
  have d: "drop_dupes [raw_candle None (Some 59999) (Some 7), empty_row] =
      [raw_candle None (Some 59999) (Some 7)]"
    by (simp add: drop_dupes_def not_duplicated_def duplicated_def raw_candle_def
        empty_row_def)
  have "\<not> list_ex isna_all [raw_candle None (Some 59999) (Some 7)]"
    by (simp add: isna_all_def raw_candle_def)
  then show ?thesis
    using quick_clean_fails_on_empty_rows_only
      [of "[raw_candle None (Some 59999) (Some 7), empty_row]"]
    unfolding d by simp
qed

text \<open>
  Claim C7. On a frame of two rows in ascending order of \<open>open_time\<close> (0 and 60000),
  without duplicates, \<open>quick_clean\<close> returns the rows in the order of the input: the
  earlier row comes first, so the result is not in descending order of timestamp.
\<close>

theorem quick_clean_keeps_input_order:
  "quick_clean [raw_candle (Some 0) (Some 59999) (Some 7),
      raw_candle (Some 60000) (Some 119999) (Some 8)] =
   Inr [raw_candle (Some 0) (Some 59999) (Some 7),
      raw_candle (Some 60000) (Some 119999) (Some 8)] \<and>
   open_time (raw_candle (Some 0) (Some 59999) (Some 7)) = Some 0 \<and>
   open_time (raw_candle (Some 60000) (Some 119999) (Some 8)) = Some 60000"
  by (simp add: quick_clean_def drop_dupes_def not_duplicated_def duplicated_def
      assert_integrity_def isna_all_def raw_candle_def)

section \<open>pandas columns and the gap filler on a frame\<close>










lemma column_Inl:
  "column f xs = Inl e \<Longrightarrow> \<exists>x \<in> set xs. f x = Inl e"
  by (induction xs) (auto split: sum.splits)





section \<open>Properties of the compact profile and of the pipeline\<close>





text \<open>
  The subtraction of 64-bit integers wraps: at \<open>open_time\<close> \<open>2\<^sup>6\<^sup>3 - 1\<close> and \<open>close_time\<close>
  \<open>- 2\<^sup>6\<^sup>3 + 59998\<close> the result is -59999 and the row passes the mask; its \<open>open_time\<close>
  is no timestamp, and the pipeline fails on the frame.
\<close>

lemma int64_wrap_around:
  "\<not> int64_duration_differs 9223372036854775807 (- 9223372036854775808 + 59998)"
  "int64_to_datetime 9223372036854775807 = Inl Raised"
  "write_raw_to_parquet (int64_frame (\<lambda>x :: real. x))
     [csv_candle 9223372036854775807 (- 9223372036854775808 + 59998) 7] = Inl Raised"
  by (simp_all add: int64_duration_differs_def int64_to_datetime_def representable_def
      write_raw_to_parquet_def set_dtypes_compressed_def int64_frame_def
      drop_close_time_ignore_def csv_candle_def)




end
